theory Spec2Isabelle
  imports Complex_Main "HOL-Library.Sublist" "HOL-Library.List_Lexorder"
begin

section \<open>Python strings and the Unicode database\<close>

text \<open>
  A Python \<open>str\<close> is a sequence of Unicode code points, so it is modelled as a list of
  natural numbers; \<open>asc\<close> reads an ASCII literal. Python compares strings
  lexicographically by code point, which is the order of \<open>List_Lexorder\<close>.
\<close>

type_synonym ustr = "nat list"

definition asc :: "string \<Rightarrow> ustr" where
  "asc s = map of_char s"

text \<open>
  \<open>str.lower\<close>, \<open>str.isspace\<close>/\<open>str.strip\<close> and the classes \<open>\w\<close>, \<open>\s\<close>, \<open>\d\<close> of
  \<open>re\<close> read the Unicode character database of the Python runtime, which is not part of
  the repository. The database is a parameter \<open>U\<close> of every function that uses it:
  \<open>str_lower\<close> is \<open>str.lower\<close> on whole strings, \<open>is_word\<close> is \<open>\w\<close> (alphanumeric or
  underscore), \<open>is_space\<close> is \<open>\s\<close> and \<open>str.isspace\<close>, \<open>is_digit\<close> is \<open>\d\<close> (decimal digits
  of any script) and \<open>digit_value\<close> the value \<open>float\<close> and \<open>int\<close> give such a digit.
\<close>

record ucd =
  str_lower :: "ustr \<Rightarrow> ustr"
  is_word :: "nat \<Rightarrow> bool"
  is_space :: "nat \<Rightarrow> bool"
  is_digit :: "nat \<Rightarrow> bool"
  digit_value :: "nat \<Rightarrow> nat"

text \<open>
  \<open>ucd_basic\<close> is the database restricted to Basic Latin (U+0000..U+007F) and basic
  Cyrillic (U+0400..U+045F), together with the full list of code points that
  \<open>str.isspace\<close> accepts. On these code points it agrees with CPython; every other code
  point is treated as a caseless symbol. It is used to evaluate the functions on concrete
  messages written in these two blocks.
\<close>

definition basic_lower :: "nat \<Rightarrow> nat" where
  "basic_lower c =
     (if 0x41 \<le> c \<and> c \<le> 0x5A then c + 32
      else if 0x410 \<le> c \<and> c \<le> 0x42F then c + 32
      else if 0x400 \<le> c \<and> c \<le> 0x40F then c + 80
      else c)"

definition basic_is_word :: "nat \<Rightarrow> bool" where
  "basic_is_word c =
     ((0x30 \<le> c \<and> c \<le> 0x39) \<or> (0x41 \<le> c \<and> c \<le> 0x5A) \<or> c = 0x5F \<or>
      (0x61 \<le> c \<and> c \<le> 0x7A) \<or> (0x400 \<le> c \<and> c \<le> 0x45F))"

definition basic_is_space :: "nat \<Rightarrow> bool" where
  "basic_is_space c =
     ((0x09 \<le> c \<and> c \<le> 0x0D) \<or> (0x1C \<le> c \<and> c \<le> 0x20) \<or> c = 0x85 \<or> c = 0xA0 \<or>
      c = 0x1680 \<or> (0x2000 \<le> c \<and> c \<le> 0x200A) \<or> c = 0x2028 \<or> c = 0x2029 \<or>
      c = 0x202F \<or> c = 0x205F \<or> c = 0x3000)"

definition basic_is_digit :: "nat \<Rightarrow> bool" where
  "basic_is_digit c = (0x30 \<le> c \<and> c \<le> 0x39)"

definition ucd_basic :: ucd where
  "ucd_basic =
     \<lparr> str_lower = map basic_lower,
       is_word = basic_is_word,
       is_space = basic_is_space,
       is_digit = basic_is_digit,
       digit_value = (\<lambda>c. c - 0x30) \<rparr>"

subsection \<open>String operations\<close>

text \<open>\<open>m in t\<close> on strings: \<open>m\<close> occurs in \<open>t\<close> as a contiguous substring.\<close>

fun str_contains :: "ustr \<Rightarrow> ustr \<Rightarrow> bool" where
  "str_contains m [] = (m = [])"
| "str_contains m (c # cs) = (prefix m (c # cs) \<or> str_contains m cs)"

text \<open>\<open>sep.join(xs)\<close>.\<close>

fun str_join :: "ustr \<Rightarrow> ustr list \<Rightarrow> ustr" where
  "str_join sep [] = []"
| "str_join sep [x] = x"
| "str_join sep (x # y # ys) = x @ sep @ str_join sep (y # ys)"

text \<open>\<open>s.strip()\<close>: leading and trailing whitespace removed.\<close>

definition str_strip :: "ucd \<Rightarrow> ustr \<Rightarrow> ustr" where
  "str_strip U s = rev (dropWhile (is_space U) (rev (dropWhile (is_space U) s)))"

section \<open>Regular expressions\<close>

text \<open>
  The fragment of Python's \<open>re\<close> syntax that the program uses. \<open>Lit w\<close> is a literal
  string (what \<open>re.escape\<close> produces), \<open>LitI w\<close> a lower-case ASCII literal under
  \<open>re.I\<close>, \<open>Set\<close> and \<open>NotSet\<close> are the classes \<open>[...]\<close> and \<open>[^...]\<close>, \<open>WordB\<close> is \<open>\b\<close>,
  \<open>Opt r\<close> is \<open>r?\<close> and \<open>Star r\<close> is \<open>r*\<close>, both greedy.
\<close>

datatype atom = Ch nat | WordCls | SpaceCls | DigitCls

datatype rx =
    Lit ustr
  | LitI ustr
  | Set "atom list"
  | NotSet "atom list"
  | WordB
  | Cat rx rx
  | Alt rx rx
  | Opt rx
  | Star rx

fun atom_matches :: "ucd \<Rightarrow> atom \<Rightarrow> nat \<Rightarrow> bool" where
  "atom_matches U (Ch d) c = (c = d)"
| "atom_matches U WordCls c = is_word U c"
| "atom_matches U SpaceCls c = is_space U c"
| "atom_matches U DigitCls c = is_digit U c"

definition in_class :: "ucd \<Rightarrow> atom list \<Rightarrow> nat \<Rightarrow> bool" where
  "in_class U as c = list_ex (\<lambda>a. atom_matches U a c) as"

definition class_end :: "(nat \<Rightarrow> bool) \<Rightarrow> ustr \<Rightarrow> nat \<Rightarrow> nat list" where
  "class_end p s i = (if i < length s \<and> p (s ! i) then [Suc i] else [])"

definition word_at :: "ucd \<Rightarrow> ustr \<Rightarrow> nat \<Rightarrow> bool" where
  "word_at U s i = (i < length s \<and> is_word U (s ! i))"

text \<open>
  Under \<open>re.I\<close> a character matches a pattern letter when its simple lower-case form
  is that letter. \<open>LitI\<close> is used for the letters of \<open>retry\<close> and \<open>delay\<close> only, whose
  sole case variants in Unicode are the ASCII capitals.
\<close>

definition ascii_fold :: "nat \<Rightarrow> nat" where
  "ascii_fold c = (if 0x41 \<le> c \<and> c \<le> 0x5A then c + 32 else c)"

text \<open>
  \<open>rx_ends U s r i\<close> lists the positions where a match of \<open>r\<close> that starts at position
  \<open>i\<close> of \<open>s\<close> can end, in the order in which the backtracking matcher tries them
  (greedy alternatives first). A repetition is re-entered only after its body has
  consumed a character, as in \<open>re\<close>.
\<close>

function (sequential) rx_ends :: "ucd \<Rightarrow> ustr \<Rightarrow> rx \<Rightarrow> nat \<Rightarrow> nat list" where
  "rx_ends U s (Lit w) i = (if take (length w) (drop i s) = w then [i + length w] else [])"
| "rx_ends U s (LitI w) i =
     (if map ascii_fold (take (length w) (drop i s)) = w then [i + length w] else [])"
| "rx_ends U s (Set as) i = class_end (in_class U as) s i"
| "rx_ends U s (NotSet as) i = class_end (\<lambda>c. \<not> in_class U as c) s i"
| "rx_ends U s WordB i =
     (if (0 < i \<and> word_at U s (i - 1)) \<noteq> word_at U s i then [i] else [])"
| "rx_ends U s (Cat a b) i = concat (map (rx_ends U s b) (rx_ends U s a i))"
| "rx_ends U s (Alt a b) i = rx_ends U s a i @ rx_ends U s b i"
| "rx_ends U s (Opt a) i = rx_ends U s a i @ [i]"
| "rx_ends U s (Star a) i =
     concat (map (\<lambda>j. if i < j \<and> j \<le> length s then rx_ends U s (Star a) j else [])
                 (rx_ends U s a i)) @ [i]"
  by pat_completeness auto
termination
  by (relation "inv_image (less_than <*lex*> less_than) (\<lambda>(U, s, r, i). (size r, length s - i))")
     auto

text \<open>\<open>re.search(r, s)\<close> finds a match: some start position has an end position.\<close>

definition rx_search :: "ucd \<Rightarrow> rx \<Rightarrow> ustr \<Rightarrow> bool" where
  "rx_search U r s = list_ex (\<lambda>i. rx_ends U s r i \<noteq> []) [0..<Suc (length s)]"

text \<open>A pattern written as a sequence of parts, and \<open>r+\<close> as \<open>rr*\<close>.\<close>

fun seq :: "rx list \<Rightarrow> rx" where
  "seq [] = Lit []"
| "seq [r] = r"
| "seq (r # rs) = Cat r (seq rs)"

definition Plus :: "rx \<Rightarrow> rx" where
  "Plus r = Cat r (Star r)"

text \<open>\<open>re.search(rf"\b{re.escape(w)}\b", t)\<close>: the word \<open>w\<close> between two word boundaries.\<close>

definition word_search :: "ucd \<Rightarrow> ustr \<Rightarrow> ustr \<Rightarrow> bool" where
  "word_search U w t = rx_search U (seq [WordB, Lit w, WordB]) t"

text \<open>
  \<open>re.sub(r"[C]+", " ", t)\<close> for a character class \<open>C\<close>: each maximal run of characters
  of the class is replaced by one space.
\<close>

function replace_runs :: "(nat \<Rightarrow> bool) \<Rightarrow> ustr \<Rightarrow> ustr" where
  "replace_runs p [] = []"
| "replace_runs p (c # cs) =
     (if p c then 0x20 # replace_runs p (dropWhile p cs) else c # replace_runs p cs)"
  by pat_completeness auto
termination
  by (relation "measure (\<lambda>(p, s). length s)") (auto simp: length_dropWhile_le less_Suc_eq_le)

section \<open>The risk heuristic engine\<close>

subsection \<open>Normalizer\<close>

text \<open>
  The translation table \<open>map_l2c\<close> of \<open>_normalize\<close>: the Latin letters
  a, e, o, p, c, x, y, k, m, h, b, t and the Cyrillic letters that look like them.
\<close>

definition map_l2c :: "(nat \<times> nat) list" where
  "map_l2c =
     [(0x61, 0x430), (0x65, 0x435), (0x6F, 0x43E), (0x70, 0x440), (0x63, 0x441), (0x78, 0x445),
      (0x79, 0x443), (0x6B, 0x43A), (0x6D, 0x43C), (0x68, 0x43D), (0x62, 0x432), (0x74, 0x442)]"

text \<open>\<open>s.translate(tab)\<close>: a character with an entry in the table is replaced, any other kept.\<close>

definition translate_char :: "(nat \<times> nat) list \<Rightarrow> nat \<Rightarrow> nat" where
  "translate_char tab c = (case map_of tab c of Some d \<Rightarrow> d | None \<Rightarrow> c)"

definition translate :: "(nat \<times> nat) list \<Rightarrow> ustr \<Rightarrow> ustr" where
  "translate tab s = map (translate_char tab) s"

text \<open>
  \<open>_normalize\<close> of the source (an identifier cannot start with an underscore here, and
  \<open>normalize\<close> is taken): lower-case, punctuation runs to a space, whitespace runs to a
  space, strip, fold Latin to Cyrillic.
\<close>

definition normalize_text :: "ucd \<Rightarrow> ustr \<Rightarrow> ustr" where
  "normalize_text U text =
     (let t = str_lower U text;
          t = replace_runs (\<lambda>c. \<not> in_class U [WordCls, SpaceCls] c) t;
          t = str_strip U (replace_runs (in_class U [SpaceCls]) t)
      in translate map_l2c t)"

text \<open>
  The facts about the Unicode database that the idempotence of the normalizer rests on.
  Each is true of CPython: every character that \<open>str.lower\<close> produces is itself unchanged
  by \<open>str.lower\<close>; a string of such characters is unchanged by \<open>str.lower\<close> (the mapping
  works character by character, except for the capital sigma, which is not such a
  character); the space U+0020 is whitespace and caseless; no character is both a word
  character and whitespace; the twelve Cyrillic letters of \<open>map_l2c\<close> are lower-case
  letters.
\<close>

definition ucd_ok :: "ucd \<Rightarrow> bool" where
  "ucd_ok U =
     ((\<forall>s. \<forall>c\<in>set (str_lower U s). str_lower U [c] = [c]) \<and>
      (\<forall>s. (\<forall>c\<in>set s. str_lower U [c] = [c]) \<longrightarrow> str_lower U s = s) \<and>
      is_space U 0x20 \<and> str_lower U [0x20] = [0x20] \<and>
      (\<forall>c. is_word U c \<longrightarrow> \<not> is_space U c) \<and>
      (\<forall>d\<in>snd ` set map_l2c. is_word U d \<and> str_lower U [d] = [d]))"

subsection \<open>Constant word lists\<close>

text \<open>
  The built-in keyword list that \<open>load_keywords\<close> falls back to, in source order. The
  Cyrillic entries are written by code point; transliterated they read perevedi, srochno,
  podarok, grant, ssylka, parol', bank, lotereya, vyigral, dannye.
\<close>

definition fallback_keywords :: "ustr list" where
  "fallback_keywords =
     [asc ''transfer'', asc ''urgent'', asc ''money'', asc ''prize'', asc ''win'', asc ''grant'',
      asc ''link'', asc ''click'',
      [0x43F, 0x435, 0x440, 0x435, 0x432, 0x435, 0x434, 0x438],
      [0x441, 0x440, 0x43E, 0x447, 0x43D, 0x43E],
      [0x43F, 0x43E, 0x434, 0x430, 0x440, 0x43E, 0x43A],
      [0x433, 0x440, 0x430, 0x43D, 0x442],
      [0x441, 0x441, 0x44B, 0x43B, 0x43A, 0x430],
      [0x43F, 0x430, 0x440, 0x43E, 0x43B, 0x44C],
      [0x431, 0x430, 0x43D, 0x43A],
      [0x43B, 0x43E, 0x442, 0x435, 0x440, 0x435, 0x44F],
      [0x432, 0x44B, 0x438, 0x433, 0x440, 0x430, 0x43B],
      [0x434, 0x430, 0x43D, 0x43D, 0x44B, 0x435]]"

text \<open>
  The link markers of the second detector (the last two are ssylka and pereydi), the
  action words (click, klikni, pereydi, vvedi, podtverdi, perevedi, oplati, follow, open,
  confirm) and the reward words (vyigral, priz, podarok, lotereya, grant, grant in
  Cyrillic, win, prize, reward, den'gi, dokhod, investitsiya), in source order.
\<close>

definition link_markers :: "ustr list" where
  "link_markers =
     [asc ''http://'', asc ''https://'', asc ''t.me/'', asc ''bit.ly'', asc ''tinyurl'',
      asc ''wa.me/'', asc ''vk.cc'', asc ''goo.gl'', asc ''lnkd.in'', asc ''link'',
      [0x441, 0x441, 0x44B, 0x43B, 0x43A, 0x430],
      [0x43F, 0x435, 0x440, 0x435, 0x439, 0x434, 0x438]]"

definition actions :: "ustr list" where
  "actions =
     [asc ''click'',
      [0x43A, 0x43B, 0x438, 0x43A, 0x43D, 0x438],
      [0x43F, 0x435, 0x440, 0x435, 0x439, 0x434, 0x438],
      [0x432, 0x432, 0x435, 0x434, 0x438],
      [0x43F, 0x43E, 0x434, 0x442, 0x432, 0x435, 0x440, 0x434, 0x438],
      [0x43F, 0x435, 0x440, 0x435, 0x432, 0x435, 0x434, 0x438],
      [0x43E, 0x43F, 0x43B, 0x430, 0x442, 0x438],
      asc ''follow'', asc ''open'', asc ''confirm'']"

definition rewards :: "ustr list" where
  "rewards =
     [[0x432, 0x44B, 0x438, 0x433, 0x440, 0x430, 0x43B],
      [0x43F, 0x440, 0x438, 0x437],
      [0x43F, 0x43E, 0x434, 0x430, 0x440, 0x43E, 0x43A],
      [0x43B, 0x43E, 0x442, 0x435, 0x440, 0x435, 0x44F],
      asc ''grant'',
      [0x433, 0x440, 0x430, 0x43D, 0x442],
      asc ''win'', asc ''prize'', asc ''reward'',
      [0x434, 0x435, 0x43D, 0x44C, 0x433, 0x438],
      [0x434, 0x43E, 0x445, 0x43E, 0x434],
      [0x438, 0x43D, 0x432, 0x435, 0x441, 0x442, 0x438, 0x446, 0x438, 0x44F]]"

text \<open>
  The currency pattern
  \<^verbatim>\<open>\b\d{1,3}(?:[\s.,\u00A0]\d{3})*(?:[.,]\d+)?\s?(?:T|tenge|kzt|\$|usd|eur|E|rub|R)\b\<close>
  where \<open>T\<close>, \<open>E\<close>, \<open>R\<close> stand for the tenge (U+20B8), euro (U+20AC) and rouble (U+20BD)
  signs and \<open>tenge\<close>, \<open>rub\<close> for the two Cyrillic words.
\<close>

definition digit :: rx where
  "digit = Set [DigitCls]"

definition currency_token :: rx where
  "currency_token =
     Alt (Lit [0x20B8])
    (Alt (Lit [0x442, 0x435, 0x43D, 0x433, 0x435])
    (Alt (Lit (asc ''kzt''))
    (Alt (Lit (asc ''$''))
    (Alt (Lit (asc ''usd''))
    (Alt (Lit (asc ''eur''))
    (Alt (Lit [0x20AC])
    (Alt (Lit [0x440, 0x443, 0x431])
         (Lit [0x20BD]))))))))"

text \<open>The words and signs of \<open>currency_token\<close>, as a list.\<close>

definition currency_words :: "ustr list" where
  "currency_words =
     [[0x20B8], [0x442, 0x435, 0x43D, 0x433, 0x435], asc ''kzt'', asc ''$'', asc ''usd'',
      asc ''eur'', [0x20AC], [0x440, 0x443, 0x431], [0x20BD]]"

definition currency_rx :: rx where
  "currency_rx =
     seq [WordB,
          digit, Opt (Cat digit (Opt digit)),
          Star (seq [Set [SpaceCls, Ch 0x2E, Ch 0x2C, Ch 0xA0], digit, digit, digit]),
          Opt (Cat (Set [Ch 0x2E, Ch 0x2C]) (Plus digit)),
          Opt (Set [SpaceCls]),
          currency_token,
          WordB]"

subsection \<open>Signal detectors and risk aggregator\<close>

text \<open>The list \<open>hits\<close> of the keyword detector: the non-empty keywords found as whole words.\<close>

definition keyword_hits :: "ucd \<Rightarrow> ustr list \<Rightarrow> ustr \<Rightarrow> ustr list" where
  "keyword_hits U KEYWORDS t = filter (\<lambda>kw. kw \<noteq> [] \<and> word_search U kw t) KEYWORDS"

text \<open>
  \<open>looks_suspicious\<close>, with the global \<open>KEYWORDS\<close> as a parameter. The list \<open>reasons\<close>
  is threaded through the four detectors in source order.
\<close>

definition looks_suspicious :: "ucd \<Rightarrow> ustr list \<Rightarrow> ustr \<Rightarrow> bool \<times> ustr list" where
  "looks_suspicious U KEYWORDS text =
     (let t = normalize_text U text;
          reasons = [];
          hits = keyword_hits U KEYWORDS t;
          reasons = (if hits \<noteq> []
                     then reasons @ [asc ''found keywords: '' @ str_join (asc '', '') (take 5 hits)]
                     else reasons);
          reasons = (if list_ex (\<lambda>m. str_contains m t) link_markers
                     then reasons @ [asc ''contains link/shortener'']
                     else reasons);
          reasons = (if rx_search U currency_rx t
                     then reasons @ [asc ''mentions money amount + currency'']
                     else reasons);
          reasons = (if list_ex (\<lambda>a. word_search U a t) actions
                        \<and> list_ex (\<lambda>r. word_search U r t) rewards
                     then reasons @ [asc ''action + reward pattern'']
                     else reasons)
      in (0 < length reasons, reasons))"

section \<open>Keyword loading\<close>

text \<open>
  What \<open>json.load\<close> returns. \<open>JObj\<close> holds the items of the parsed \<open>dict\<close> in insertion
  order (its keys are distinct: of duplicate keys \<open>json.load\<close> keeps the last). The value
  of a number plays no role in the program.
\<close>

datatype json =
    JNull
  | JBool bool
  | JNum real
  | JStr ustr
  | JArr "json list"
  | JObj "(ustr \<times> json) list"

text \<open>
  \<open>for k in kws\<close>: a list yields its elements, a \<open>dict\<close> its keys, a string its
  characters; anything else raises \<open>TypeError\<close> (\<open>None\<close> here).
\<close>

fun iterate :: "json \<Rightarrow> json list option" where
  "iterate (JArr xs) = Some xs"
| "iterate (JObj items) = Some (map (\<lambda>(k, v). JStr k) items)"
| "iterate (JStr s) = Some (map (\<lambda>c. JStr [c]) s)"
| "iterate _ = None"

text \<open>\<open>str(k) for k in kws if isinstance(k, str)\<close>.\<close>

fun strings_of :: "json list \<Rightarrow> ustr list" where
  "strings_of [] = []"
| "strings_of (JStr s # ks) = s # strings_of ks"
| "strings_of (_ # ks) = strings_of ks"

text \<open>
  \<open>load_keywords\<close>. The argument is the outcome of opening and parsing the keyword file:
  \<open>None\<close> when \<open>open\<close> or \<open>json.load\<close> raises. \<open>data.get\<close> raises \<open>AttributeError\<close> when the
  document is not an object, and the loop raises \<open>TypeError\<close> when the field is not
  iterable; every exception ends in the built-in list. \<open>sorted(set(...))\<close> is the sorted
  list of the set of the strings.
\<close>

definition load_keywords :: "ucd \<Rightarrow> json option \<Rightarrow> ustr list" where
  "load_keywords U file =
     (case file of
        None \<Rightarrow> fallback_keywords
      | Some (JObj items) \<Rightarrow>
          (case iterate (case map_of items (asc ''keywords'') of None \<Rightarrow> JArr [] | Some kws \<Rightarrow> kws) of
             None \<Rightarrow> fallback_keywords
           | Some ks \<Rightarrow> sorted_list_of_set (set (map (str_lower U) (strings_of ks))))
      | Some _ \<Rightarrow> fallback_keywords)"

section \<open>The explanation arbiter\<close>

text \<open>
  The globals \<open>_ai_cooldown_until\<close> and \<open>_ai_backoff_sec\<close> form the state; the constant
  \<open>_ai_backoff_max\<close> is \<open>ai_backoff_max\<close>. A Python float is modelled by the real number
  it denotes. Comparison and \<open>min\<close> of doubles are exact. Doubling a double is exact
  short of overflow, and the overflow of a non-negative value is absorbed by the \<open>min\<close>
  with 3600 that follows. Addition and subtraction of doubles round, so they are
  parameters of the model (\<open>fadd\<close> and \<open>fsub\<close> below).
\<close>

record ai_state =
  ai_cooldown_until :: real
  ai_backoff_sec :: real

definition ai_backoff_max :: real where
  "ai_backoff_max = 3600"

definition ai_initial :: ai_state where
  "ai_initial = \<lparr> ai_cooldown_until = 0, ai_backoff_sec = 60 \<rparr>"

definition tip_ru :: ustr where
  "tip_ru =
     [0x41F, 0x440, 0x43E, 0x432, 0x435, 0x440, 0x44C, 0x442, 0x435, 0x20, 0x43E, 0x442,
      0x43F, 0x440, 0x430, 0x432, 0x438, 0x442, 0x435, 0x43B, 0x44F, 0x20, 0x43F, 0x43E,
      0x20, 0x43E, 0x444, 0x438, 0x446, 0x438, 0x430, 0x43B, 0x44C, 0x43D, 0x43E, 0x43C,
      0x443, 0x20, 0x43D, 0x43E, 0x43C, 0x435, 0x440, 0x443, 0x2C, 0x20, 0x43D, 0x435, 0x20,
      0x43F, 0x435, 0x440, 0x435, 0x445, 0x43E, 0x434, 0x438, 0x442, 0x435, 0x20, 0x43F,
      0x43E, 0x20, 0x441, 0x441, 0x44B, 0x43B, 0x43A, 0x430, 0x43C, 0x20, 0x438, 0x20, 0x43D,
      0x435, 0x20, 0x432, 0x432, 0x43E, 0x434, 0x438, 0x442, 0x435, 0x20, 0x434, 0x430,
      0x43D, 0x43D, 0x44B, 0x435, 0x2E, 0x20, 0x415, 0x441, 0x43B, 0x438, 0x20, 0x43F, 0x440,
      0x43E, 0x441, 0x44F, 0x442, 0x20, 0x434, 0x435, 0x43D, 0x44C, 0x433, 0x438, 0x2F,
      0x43A, 0x43E, 0x434, 0x20, 0x2014, 0x20, 0x44D, 0x442, 0x43E, 0x20, 0x43F, 0x43E,
      0x447, 0x442, 0x438, 0x20, 0x43D, 0x430, 0x432, 0x435, 0x440, 0x43D, 0x44F, 0x43A,
      0x430, 0x20, 0x43C, 0x43E, 0x448, 0x435, 0x43D, 0x43D, 0x438, 0x43A, 0x438, 0x2E]"

definition tip_en :: ustr where
  "tip_en =
     [0x56, 0x65, 0x72, 0x69, 0x66, 0x79, 0x20, 0x74, 0x68, 0x65, 0x20, 0x73, 0x65, 0x6E,
      0x64, 0x65, 0x72, 0x20, 0x76, 0x69, 0x61, 0x20, 0x6F, 0x66, 0x66, 0x69, 0x63, 0x69,
      0x61, 0x6C, 0x20, 0x70, 0x68, 0x6F, 0x6E, 0x65, 0x2C, 0x20, 0x64, 0x6F, 0x6E, 0x2019,
      0x74, 0x20, 0x6F, 0x70, 0x65, 0x6E, 0x20, 0x6C, 0x69, 0x6E, 0x6B, 0x73, 0x20, 0x6F,
      0x72, 0x20, 0x65, 0x6E, 0x74, 0x65, 0x72, 0x20, 0x63, 0x72, 0x65, 0x64, 0x65, 0x6E,
      0x74, 0x69, 0x61, 0x6C, 0x73, 0x2E, 0x20, 0x49, 0x66, 0x20, 0x74, 0x68, 0x65, 0x79,
      0x20, 0x61, 0x73, 0x6B, 0x20, 0x66, 0x6F, 0x72, 0x20, 0x6D, 0x6F, 0x6E, 0x65, 0x79,
      0x2F, 0x63, 0x6F, 0x64, 0x65, 0x73, 0x20, 0x2014, 0x20, 0x69, 0x74, 0x2019, 0x73, 0x20,
      0x61, 0x6C, 0x6D, 0x6F, 0x73, 0x74, 0x20, 0x63, 0x65, 0x72, 0x74, 0x61, 0x69, 0x6E,
      0x6C, 0x79, 0x20, 0x61, 0x20, 0x73, 0x63, 0x61, 0x6D, 0x2E]"

definition local_fallback_tip :: "ustr \<Rightarrow> ustr" where
  "local_fallback_tip lang = (if lang = asc ''ru'' then tip_ru else tip_en)"

definition prompt_en :: ustr where
  "prompt_en =
     [0x59, 0x6F, 0x75, 0x20, 0x61, 0x72, 0x65, 0x20, 0x61, 0x20, 0x63, 0x6F, 0x6E, 0x63,
      0x69, 0x73, 0x65, 0x20, 0x66, 0x69, 0x6E, 0x61, 0x6E, 0x63, 0x69, 0x61, 0x6C, 0x20,
      0x73, 0x61, 0x66, 0x65, 0x74, 0x79, 0x20, 0x61, 0x73, 0x73, 0x69, 0x73, 0x74, 0x61,
      0x6E, 0x74, 0x2E, 0x20, 0x49, 0x6E, 0x20, 0x31, 0x2013, 0x32, 0x20, 0x73, 0x65, 0x6E,
      0x74, 0x65, 0x6E, 0x63, 0x65, 0x73, 0x2C, 0x20, 0x65, 0x78, 0x70, 0x6C, 0x61, 0x69,
      0x6E, 0x20, 0x77, 0x68, 0x79, 0x20, 0x74, 0x68, 0x65, 0x20, 0x75, 0x73, 0x65, 0x72,
      0x27, 0x73, 0x20, 0x6D, 0x65, 0x73, 0x73, 0x61, 0x67, 0x65, 0x20, 0x63, 0x6F, 0x75,
      0x6C, 0x64, 0x20, 0x62, 0x65, 0x20, 0x61, 0x20, 0x73, 0x63, 0x61, 0x6D, 0x20, 0x61,
      0x6E, 0x64, 0x20, 0x77, 0x68, 0x61, 0x74, 0x20, 0x74, 0x6F, 0x20, 0x64, 0x6F, 0x20,
      0x6E, 0x65, 0x78, 0x74, 0x2E, 0x20, 0x4B, 0x65, 0x65, 0x70, 0x20, 0x69, 0x74, 0x20,
      0x61, 0x63, 0x74, 0x69, 0x6F, 0x6E, 0x61, 0x62, 0x6C, 0x65, 0x2E]"

definition prompt_ru :: ustr where
  "prompt_ru =
     [0x422, 0x44B, 0x20, 0x43A, 0x440, 0x430, 0x442, 0x43A, 0x438, 0x439, 0x20, 0x43F,
      0x43E, 0x43C, 0x43E, 0x449, 0x43D, 0x438, 0x43A, 0x20, 0x43F, 0x43E, 0x20, 0x444,
      0x438, 0x43D, 0x430, 0x43D, 0x441, 0x43E, 0x432, 0x43E, 0x439, 0x20, 0x431, 0x435,
      0x437, 0x43E, 0x43F, 0x430, 0x441, 0x43D, 0x43E, 0x441, 0x442, 0x438, 0x2E, 0x20,
      0x417, 0x430, 0x20, 0x31, 0x2013, 0x32, 0x20, 0x43F, 0x440, 0x435, 0x434, 0x43B, 0x43E,
      0x436, 0x435, 0x43D, 0x438, 0x44F, 0x20, 0x43E, 0x431, 0x44A, 0x44F, 0x441, 0x43D,
      0x438, 0x2C, 0x20, 0x43F, 0x43E, 0x447, 0x435, 0x43C, 0x443, 0x20, 0x441, 0x43E, 0x43E,
      0x431, 0x449, 0x435, 0x43D, 0x438, 0x435, 0x20, 0x43C, 0x43E, 0x436, 0x435, 0x442,
      0x20, 0x431, 0x44B, 0x442, 0x44C, 0x20, 0x43C, 0x43E, 0x448, 0x435, 0x43D, 0x43D,
      0x438, 0x447, 0x435, 0x441, 0x43A, 0x438, 0x43C, 0x2C, 0x20, 0x438, 0x20, 0x447, 0x442,
      0x43E, 0x20, 0x434, 0x435, 0x43B, 0x430, 0x442, 0x44C, 0x20, 0x434, 0x430, 0x43B,
      0x44C, 0x448, 0x435, 0x2E, 0x20, 0x41A, 0x440, 0x430, 0x442, 0x43A, 0x43E, 0x20, 0x438,
      0x20, 0x43F, 0x43E, 0x20, 0x434, 0x435, 0x43B, 0x443, 0x2E]"

text \<open>
  An exception, with the text \<open>str(e)\<close>: \<open>Exc\<close> when its class derives from
  \<open>Exception\<close>, \<open>BaseExc\<close> when it derives from \<open>BaseException\<close> only (for instance
  \<open>asyncio.CancelledError\<close>).
\<close>

datatype exn = Exc ustr | BaseExc ustr

text \<open>
  What \<open>_call\<close> observes of the remote generator: \<open>Response txt\<close> when
  \<open>generate_content\<close> returns, \<open>txt\<close> being the \<open>text\<close> attribute of the response
  (\<open>None\<close> when it is missing or \<open>None\<close>); \<open>Throws e\<close> when \<open>generate_content\<close> or the
  reading of \<open>text\<close> raises \<open>e\<close>; \<open>NoReply\<close> when the call never returns (the program sets
  no timeout). The model handle \<open>_gemini_model\<close> is an optional function from the request
  text to that outcome.
\<close>

datatype reply = Response "ustr option" | Throws exn | NoReply

type_synonym generator = "ustr \<Rightarrow> reply"

text \<open>
  The environment of one call: the three values that \<open>time.time()\<close> returns (at the
  cooldown test, in the exception handler, and for the log line of the handler), the
  addition and subtraction of doubles, and the standard output, where \<open>stdout line\<close> is
  \<open>None\<close> when \<open>print(line)\<close> writes the line and \<open>Some e\<close> when it raises \<open>e\<close>.
\<close>

record env =
  now_gate :: real
  now_fail :: real
  now_log :: real
  fadd :: "real \<Rightarrow> real \<Rightarrow> real"
  fsub :: "real \<Rightarrow> real \<Rightarrow> real"
  stdout :: "ustr \<Rightarrow> exn option"

text \<open>\<open>"429" in msg or "quota" in msg.lower()\<close>.\<close>

definition is_quota_error :: "ucd \<Rightarrow> ustr \<Rightarrow> bool" where
  "is_quota_error U msg =
     (str_contains (asc ''429'') msg \<or> str_contains (asc ''quota'') (str_lower U msg))"

text \<open>
  \<open>re.search(r"retry[_ ]delay[^\d]*(\d+)", msg, flags=re.I)\<close> and its group 1: the
  first start position, then the first end of the part before the group, then the first
  end of the group, in the order of the backtracking matcher.
\<close>

definition retry_prefix :: rx where
  "retry_prefix =
     seq [LitI (asc ''retry''), Set [Ch 0x5F, Ch 0x20], LitI (asc ''delay''),
          Star (NotSet [DigitCls])]"

definition retry_group :: "ucd \<Rightarrow> ustr \<Rightarrow> ustr option" where
  "retry_group U msg =
     (case concat (map (\<lambda>i. concat (map (\<lambda>b. map (\<lambda>e. (b, e)) (rx_ends U msg (Plus digit) b))
                                          (rx_ends U msg retry_prefix i)))
                       [0..<Suc (length msg)]) of
        [] \<Rightarrow> None
      | (b, e) # _ \<Rightarrow> Some (take (e - b) (drop b msg)))"

text \<open>
  \<open>float(m.group(1))\<close> on a string of decimal digits. The float of a large integer is
  rounded, but only \<open>min(retry, 3600.0)\<close> is used, which is the same for the exact value.
\<close>

definition float_of_digits :: "ucd \<Rightarrow> ustr \<Rightarrow> real" where
  "float_of_digits U ds = real (foldl (\<lambda>a c. 10 * a + digit_value U c) 0 ds)"

text \<open>
  The text handed to \<open>generate_content\<close>: the prompt of the language, a separator and
  the first 1500 characters of the message.
\<close>

definition request_text :: "ustr \<Rightarrow> ustr \<Rightarrow> ustr" where
  "request_text text lang =
     (let prompt = (if lang = asc ''en'' then prompt_en else prompt_ru);
          payload = take 1500 text
      in prompt @ [0x0A, 0x0A] @ asc ''User message:'' @ [0x0A] @ payload)"

text \<open>\<open>str(n)\<close> for an integer, and \<open>int(x)\<close> for a float (truncation towards zero).\<close>

fun show_nat :: "nat \<Rightarrow> ustr" where
  "show_nat n = (if n < 10 then [0x30 + n] else show_nat (n div 10) @ [0x30 + n mod 10])"

definition show_int :: "int \<Rightarrow> ustr" where
  "show_int i = (if i < 0 then 0x2D # show_nat (nat (- i)) else show_nat (nat i))"

definition py_int :: "real \<Rightarrow> int" where
  "py_int x = (if 0 \<le> x then \<lfloor>x\<rfloor> else \<lceil>x\<rceil>)"

text \<open>
  The outcome of \<open>await asyncio.to_thread(_call)\<close>: \<open>Out out\<close> when \<open>_call\<close> returns the
  stripped text, \<open>Thrown e\<close> when an exception leaves it, \<open>Blocked\<close> when it never returns.
  \<open>_call\<close> prints a line, calls the generator, prints a second line and returns; an
  exception raised by either \<open>print\<close> leaves \<open>_call\<close> like one of the generator. The second
  component lists the requests sent to the generator.
\<close>

datatype call_result = Out ustr | Thrown exn | Blocked

definition remote_call :: "ucd \<Rightarrow> env \<Rightarrow> generator \<Rightarrow> ustr \<Rightarrow> call_result \<times> ustr list" where
  "remote_call U E generate_content request =
     (case stdout E (asc ''[Gemini] sent '' @ [0x2026]) of
        Some e \<Rightarrow> (Thrown e, [])
      | None \<Rightarrow>
          (case generate_content request of
             Response txt \<Rightarrow>
               let out = str_strip U (case txt of None \<Rightarrow> [] | Some s \<Rightarrow> s);
                   line = (if out \<noteq> []
                           then asc ''[Gemini] response: '' @ take 200 out @ [0x2026]
                           else asc ''[Gemini] empty'')
               in (case stdout E line of
                     Some e \<Rightarrow> (Thrown e, [request])
                   | None \<Rightarrow> (Out out, [request]))
           | Throws e \<Rightarrow> (Thrown e, [request])
           | NoReply \<Rightarrow> (Blocked, [request])))"

text \<open>
  The handler of \<open>except Exception\<close>. \<open>cooldown_window\<close> is \<open>min(retry, _ai_backoff_max)\<close>,
  the delay that a quota error adds to the clock; \<open>quota_state\<close> is the state after the
  two assignments; \<open>handler_line\<close> is the line that the handler prints.
\<close>

definition cooldown_window :: "ucd \<Rightarrow> ai_state \<Rightarrow> ustr \<Rightarrow> real" where
  "cooldown_window U st msg =
     (let retry = (case retry_group U msg of
                     Some ds \<Rightarrow> float_of_digits U ds
                   | None \<Rightarrow> ai_backoff_sec st)
      in min retry ai_backoff_max)"

definition quota_state :: "ucd \<Rightarrow> env \<Rightarrow> ai_state \<Rightarrow> ustr \<Rightarrow> ai_state" where
  "quota_state U E st msg =
     (let st = st\<lparr> ai_cooldown_until := fadd E (now_fail E) (cooldown_window U st msg) \<rparr>;
          st = st\<lparr> ai_backoff_sec := min (ai_backoff_sec st * 2) ai_backoff_max \<rparr>
      in st)"

definition handler_line :: "ucd \<Rightarrow> env \<Rightarrow> ai_state \<Rightarrow> ustr \<Rightarrow> ustr" where
  "handler_line U E st msg =
     (if is_quota_error U msg
      then asc ''[Gemini] 429 -> cooldown '' @
           show_int (py_int (fsub E (ai_cooldown_until (quota_state U E st msg)) (now_log E))) @
           asc ''s''
      else asc ''[Gemini] error: '' @ msg)"

text \<open>
  What a call of \<open>ai_explain_safety\<close> ends in: it returns a value (the annotation is
  \<open>Optional[str]\<close>), an exception leaves it, or it never returns. The result of one call
  is that outcome, the state after the call and the requests sent to the remote generator
  during the call.
\<close>

datatype outcome = Return "ustr option" | Raise exn | NoReturn

record ai_result =
  result :: outcome
  state :: ai_state
  sent :: "ustr list"

text \<open>
  \<open>ai_explain_safety\<close>. \<open>gemini_model\<close> is the model handle, if any, with the behaviour of
  the remote generator during this call. The handler catches an \<open>Exception\<close> only; an
  exception raised by the \<open>print\<close> of the handler leaves the function, after the state has
  been assigned.
\<close>

definition ai_explain_safety ::
  "ucd \<Rightarrow> env \<Rightarrow> generator option \<Rightarrow> ai_state \<Rightarrow> ustr \<Rightarrow> ustr \<Rightarrow> ai_result" where
  "ai_explain_safety U E gemini_model st text lang =
     (case gemini_model of
        None \<Rightarrow> \<lparr> result = Return (Some (local_fallback_tip lang)), state = st, sent = [] \<rparr>
      | Some generate_content \<Rightarrow>
          if now_gate E < ai_cooldown_until st
          then \<lparr> result = Return (Some (local_fallback_tip lang)), state = st, sent = [] \<rparr>
          else
            (case remote_call U E generate_content (request_text text lang) of
               (Out out, reqs) \<Rightarrow>
                 \<lparr> result = Return (Some (if out \<noteq> [] then take 500 out
                                            else local_fallback_tip lang)),
                   state = st, sent = reqs \<rparr>
             | (Blocked, reqs) \<Rightarrow> \<lparr> result = NoReturn, state = st, sent = reqs \<rparr>
             | (Thrown (BaseExc msg), reqs) \<Rightarrow>
                 \<lparr> result = Raise (BaseExc msg), state = st, sent = reqs \<rparr>
             | (Thrown (Exc msg), reqs) \<Rightarrow>
                 let st1 = (if is_quota_error U msg then quota_state U E st msg else st)
                 in (case stdout E (handler_line U E st msg) of
                       Some e \<Rightarrow> \<lparr> result = Raise e, state = st1, sent = reqs \<rparr>
                     | None \<Rightarrow>
                         \<lparr> result = Return (Some (local_fallback_tip lang)),
                           state = st1, sent = reqs \<rparr>)))"


definition always_throws :: "exn \<Rightarrow> generator" where
  "always_throws e = (\<lambda>request. Throws e)"

definition always_responds :: "ustr option \<Rightarrow> generator" where
  "always_responds txt = (\<lambda>request. Response txt)"

text \<open>
  An environment for the examples. It adds and subtracts exactly, as doubles do on the
  small integers of the examples, and it prints to a UTF-8 stream with strict error
  handling: a line with a surrogate code point raises \<open>UnicodeEncodeError\<close>, whose text
  names the first run of surrogates, and any other line is written. For one surrogate
  the text is
  \<^verbatim>\<open>'utf-8' codec can't encode character '\udXXX' in position N: surrogates not allowed\<close>,
  for a longer run
  \<^verbatim>\<open>'utf-8' codec can't encode characters in position N-M: surrogates not allowed\<close>.
\<close>

definition is_surrogate :: "nat \<Rightarrow> bool" where
  "is_surrogate c = (0xD800 \<le> c \<and> c \<le> 0xDFFF)"

definition hex_digit :: "nat \<Rightarrow> nat" where
  "hex_digit d = (if d < 10 then 0x30 + d else 0x57 + d)"

definition hex4 :: "nat \<Rightarrow> ustr" where
  "hex4 c = map hex_digit [c div 4096 mod 16, c div 256 mod 16, c div 16 mod 16, c mod 16]"

definition utf8_stdout :: "ustr \<Rightarrow> exn option" where
  "utf8_stdout line =
     (let a = length (takeWhile (\<lambda>c. \<not> is_surrogate c) line);
          n = length (takeWhile is_surrogate (drop a line))
      in if n = 0 then None
         else if n = 1
         then Some (Exc (
     [0x27, 0x75, 0x74, 0x66, 0x2D, 0x38, 0x27, 0x20, 0x63, 0x6F, 0x64, 0x65, 0x63, 0x20,
      0x63, 0x61, 0x6E, 0x27, 0x74, 0x20, 0x65, 0x6E, 0x63, 0x6F, 0x64, 0x65, 0x20, 0x63,
      0x68, 0x61, 0x72, 0x61, 0x63, 0x74, 0x65, 0x72, 0x20, 0x27, 0x5C, 0x75] @
           hex4 (line ! a) @
     [0x27, 0x20, 0x69, 0x6E, 0x20, 0x70, 0x6F, 0x73, 0x69, 0x74, 0x69, 0x6F, 0x6E, 0x20] @
           show_nat a @
     [0x3A, 0x20, 0x73, 0x75, 0x72, 0x72, 0x6F, 0x67, 0x61, 0x74, 0x65, 0x73, 0x20, 0x6E,
      0x6F, 0x74, 0x20, 0x61, 0x6C, 0x6C, 0x6F, 0x77, 0x65, 0x64]))
         else Some (Exc (
     [0x27, 0x75, 0x74, 0x66, 0x2D, 0x38, 0x27, 0x20, 0x63, 0x6F, 0x64, 0x65, 0x63, 0x20,
      0x63, 0x61, 0x6E, 0x27, 0x74, 0x20, 0x65, 0x6E, 0x63, 0x6F, 0x64, 0x65, 0x20, 0x63,
      0x68, 0x61, 0x72, 0x61, 0x63, 0x74, 0x65, 0x72, 0x73, 0x20, 0x69, 0x6E, 0x20, 0x70,
      0x6F, 0x73, 0x69, 0x74, 0x69, 0x6F, 0x6E, 0x20] @
           show_nat a @ [0x2D] @ show_nat (a + n - 1) @
     [0x3A, 0x20, 0x73, 0x75, 0x72, 0x72, 0x6F, 0x67, 0x61, 0x74, 0x65, 0x73, 0x20, 0x6E,
      0x6F, 0x74, 0x20, 0x61, 0x6C, 0x6C, 0x6F, 0x77, 0x65, 0x64])))"

definition env_utf8 :: "real \<Rightarrow> real \<Rightarrow> real \<Rightarrow> env" where
  "env_utf8 g f l =
     \<lparr> now_gate = g, now_fail = f, now_log = l, fadd = (+), fsub = (-),
       stdout = utf8_stdout \<rparr>"


section \<open>Properties of the risk heuristic engine\<close>

subsection \<open>Substrings\<close>

lemma str_contains_sublist: "str_contains m t = sublist m t"
  by (induction t) (auto simp: sublist_Cons_right)

lemma take_drop_contains:
  assumes "take n (drop i t) = w"
  shows "str_contains w t"
proof -
  have "t = take i t @ take n (drop i t) @ drop n (drop i t)"
    by (metis append_take_drop_id)
  then have "t = take i t @ w @ drop n (drop i t)"
    using assms by simp
  then show ?thesis
    unfolding str_contains_sublist sublist_def by blast
qed

subsection \<open>Searching\<close>

lemma rx_search_iff: "rx_search U r s = (\<exists>i\<le>length s. rx_ends U s r i \<noteq> [])"
  unfolding rx_search_def list_ex_iff by (simp add: Bex_def less_Suc_eq_le del: upt_Suc)

lemma rx_searchI: "i \<le> length s \<Longrightarrow> rx_ends U s r i \<noteq> [] \<Longrightarrow> rx_search U r s"
  by (auto simp: rx_search_iff)

lemma ends_Cat_head: "rx_ends U s (Cat a b) i \<noteq> [] \<Longrightarrow> rx_ends U s a i \<noteq> []"
  by auto

lemma ends_Cat_tail: "rx_ends U s (Cat a b) i \<noteq> [] \<Longrightarrow> \<exists>j. rx_ends U s b j \<noteq> []"
  by auto

lemma ends_seq_member:
  "rx_ends U s (seq rs) i \<noteq> [] \<Longrightarrow> r \<in> set rs \<Longrightarrow> \<exists>j. rx_ends U s r j \<noteq> []"
proof (induction rs arbitrary: i rule: seq.induct)
  case 1
  then show ?case by simp
next
  case (2 r0)
  then show ?case by auto
next
  case (3 r0 r1 rs)
  from "3.prems"(1) have cat: "rx_ends U s (Cat r0 (seq (r1 # rs))) i \<noteq> []"
    by simp
  show ?case
  proof (cases "r = r0")
    case True
    with ends_Cat_head [OF cat] show ?thesis by blast
  next
    case False
    with "3.prems"(2) have mem: "r \<in> set (r1 # rs)" by simp
    from ends_Cat_tail [OF cat] obtain j where "rx_ends U s (seq (r1 # rs)) j \<noteq> []" by blast
    from "3.IH" [OF this mem] show ?thesis .
  qed
qed

lemma ends_Lit_contains: "rx_ends U s (Lit w) i \<noteq> [] \<Longrightarrow> str_contains w s"
  by (auto split: if_splits intro: take_drop_contains)

lemma word_search_contains: "word_search U w t \<Longrightarrow> str_contains w t"
proof -
  assume "word_search U w t"
  then obtain i where "rx_ends U t (seq [WordB, Lit w, WordB]) i \<noteq> []"
    by (auto simp: word_search_def rx_search_iff)
  from ends_seq_member [OF this, of "Lit w"] obtain j where "rx_ends U t (Lit w) j \<noteq> []"
    by auto
  then show ?thesis
    by (rule ends_Lit_contains)
qed

lemma no_word_search: "\<not> str_contains w t \<Longrightarrow> word_search U w t = False"
  using word_search_contains by blast

lemma ends_Alt: "rx_ends U s (Alt a b) i \<noteq> [] \<Longrightarrow> rx_ends U s a i \<noteq> [] \<or> rx_ends U s b i \<noteq> []"
  by auto

lemma currency_token_contains:
  assumes "rx_ends U s currency_token j \<noteq> []"
  shows "list_ex (\<lambda>w. str_contains w s) currency_words"
  using assms unfolding currency_token_def currency_words_def list_ex_Cons_iff list_ex_Nil_iff
  by (blast dest: ends_Alt ends_Lit_contains)

lemma currency_needs_token:
  assumes "rx_search U currency_rx t"
  shows "list_ex (\<lambda>w. str_contains w t) currency_words"
proof -
  from assms obtain i where "rx_ends U t currency_rx i \<noteq> []"
    by (auto simp: rx_search_iff)
  then have "\<exists>j. rx_ends U t currency_token j \<noteq> []"
    unfolding currency_rx_def by (rule ends_seq_member) simp
  then show ?thesis
    using currency_token_contains by blast
qed

lemma no_currency: "\<not> list_ex (\<lambda>w. str_contains w t) currency_words \<Longrightarrow> rx_search U currency_rx t = False"
  using currency_needs_token by blast

lemmas ucd_basic_simps =
  ucd_basic_def basic_lower_def basic_is_word_def basic_is_space_def basic_is_digit_def

lemmas normalize_eval =
  normalize_text_def asc_def ucd_basic_simps in_class_def str_strip_def translate_def
  translate_char_def map_l2c_def

subsection \<open>The normalizer\<close>

lemma set_replace_runs:
  "c \<in> set (replace_runs p s) \<Longrightarrow> c = 0x20 \<or> (c \<in> set s \<and> \<not> p c)"
  by (induction p s rule: replace_runs.induct) (auto split: if_splits dest: set_dropWhileD)

lemma replace_runs_id: "\<forall>c\<in>set s. \<not> p c \<Longrightarrow> replace_runs p s = s"
  by (induction s) auto

lemma hd_replace_runs:
  "s \<noteq> [] \<Longrightarrow> \<not> p (hd s) \<Longrightarrow> replace_runs p s \<noteq> [] \<and> hd (replace_runs p s) = hd s"
  by (cases s) auto

lemma successively_replace_runs:
  "successively (\<lambda>a b. \<not> (p a \<and> p b)) (replace_runs p s)"
proof (induction p s rule: replace_runs.induct)
  case (1 p)
  then show ?case by simp
next
  case (2 p c cs)
  show ?case
  proof (cases "p c")
    case True
    let ?r = "dropWhile p cs"
    have "replace_runs p ?r = [] \<or> \<not> p (hd (replace_runs p ?r))"
    proof (cases "?r = []")
      case True
      then show ?thesis by (simp only: replace_runs.simps simp_thms)
    next
      case False
      then have "\<not> p (hd ?r)" by (rule hd_dropWhile)
      with False hd_replace_runs [of ?r p] show ?thesis by simp
    qed
    with True "2.IH"(1) show ?thesis
      by (auto simp: successively_Cons)
  next
    case False
    with "2.IH"(2) show ?thesis
      by (auto simp: successively_Cons)
  qed
qed

lemma replace_runs_fixed:
  "successively (\<lambda>a b. \<not> (p a \<and> p b)) s \<Longrightarrow> \<forall>c\<in>set s. p c \<longrightarrow> c = 0x20 \<Longrightarrow>
   replace_runs p s = s"
proof (induction s)
  case Nil
  then show ?case by simp
next
  case (Cons c cs)
  from Cons.prems have tl: "successively (\<lambda>a b. \<not> (p a \<and> p b)) cs"
    by (auto simp: successively_Cons)
  with Cons have ih: "replace_runs p cs = cs" by simp
  show ?case
  proof (cases "p c")
    case True
    with Cons.prems have "c = 0x20" and "cs = [] \<or> \<not> p (hd cs)"
      by (auto simp: successively_Cons)
    then have "dropWhile p cs = cs"
      by (simp add: dropWhile_eq_self_iff)
    with True \<open>c = 0x20\<close> ih show ?thesis by simp
  next
    case False
    with ih show ?thesis by simp
  qed
qed

lemma successively_dropWhile:
  "successively P xs \<Longrightarrow> successively P (dropWhile q xs)"
proof -
  assume "successively P xs"
  then have "successively P (takeWhile q xs @ dropWhile q xs)" by simp
  then show ?thesis
    unfolding successively_append_iff by simp
qed

lemma set_str_strip: "c \<in> set (str_strip U s) \<Longrightarrow> c \<in> set s"
  by (auto simp: str_strip_def dest!: set_dropWhileD)

lemma successively_flip:
  "successively (\<lambda>a b. \<not> (p a \<and> p b)) xs \<Longrightarrow> successively (\<lambda>a b. \<not> (p a \<and> p b)) (rev xs)"
  unfolding successively_rev by (erule successively_mono) blast

lemma successively_str_strip:
  assumes "successively (\<lambda>a b. \<not> (p a \<and> p b)) s"
  shows "successively (\<lambda>a b. \<not> (p a \<and> p b)) (str_strip U s)"
  unfolding str_strip_def
  by (intro successively_flip successively_dropWhile assms)

lemma str_strip_ends:
  "str_strip U s = [] \<or>
   (\<not> is_space U (hd (str_strip U s)) \<and> \<not> is_space U (last (str_strip U s)))"
proof (cases "str_strip U s = []")
  case True
  then show ?thesis by simp
next
  case False
  let ?a = "dropWhile (is_space U) s"
  let ?b = "dropWhile (is_space U) (rev ?a)"
  from False have b: "?b \<noteq> []" by (simp add: str_strip_def)
  have a: "?a \<noteq> []"
  proof
    assume "?a = []"
    then have "?b = []" by (simp only: rev.simps dropWhile.simps)
    with b show False by contradiction
  qed
  have "\<not> is_space U (hd ?b)" using b by (rule hd_dropWhile)
  then have last_ok: "\<not> is_space U (last (str_strip U s))"
    using b by (simp add: str_strip_def last_rev)
  have "rev ?a = takeWhile (is_space U) (rev ?a) @ ?b" by simp
  then have "last (rev ?a) = last ?b"
    using b by (metis last_appendR)
  then have "last ?b = hd ?a"
    using a by (simp add: last_rev)
  moreover have "\<not> is_space U (hd ?a)" using a by (rule hd_dropWhile)
  ultimately have "\<not> is_space U (hd (str_strip U s))"
    using b by (simp add: str_strip_def hd_rev)
  with last_ok show ?thesis by simp
qed

lemma str_strip_id:
  assumes "s = [] \<or> (\<not> is_space U (hd s) \<and> \<not> is_space U (last s))"
  shows "str_strip U s = s"
proof (cases "s = []")
  case True
  then show ?thesis by (simp add: str_strip_def)
next
  case False
  with assms have h: "\<not> is_space U (hd s)" and l: "\<not> is_space U (last s)" by auto
  from h have "dropWhile (is_space U) s = s"
    by (simp add: dropWhile_eq_self_iff)
  moreover from l False have "dropWhile (is_space U) (rev s) = rev s"
    by (simp add: dropWhile_eq_self_iff hd_rev)
  ultimately show ?thesis by (simp add: str_strip_def)
qed

lemma translate_char_cases:
  "(c \<notin> fst ` set map_l2c \<and> translate_char map_l2c c = c) \<or>
   (c \<in> fst ` set map_l2c \<and> translate_char map_l2c c \<in> snd ` set map_l2c)"
  by (simp add: translate_char_def map_l2c_def)

lemma translate_char_not_key: "translate_char map_l2c c \<notin> fst ` set map_l2c"
  by (simp add: translate_char_def map_l2c_def)

lemma translate_char_idem:
  "translate_char map_l2c (translate_char map_l2c c) = translate_char map_l2c c"
  using translate_char_not_key [of c] translate_char_cases [of "translate_char map_l2c c"]
  by auto

lemma in_class_space: "in_class U [SpaceCls] = is_space U"
  by (simp add: fun_eq_iff in_class_def)

lemma normalize_text_unfold:
  "normalize_text U x =
     map (translate_char map_l2c)
       (str_strip U (replace_runs (is_space U)
          (replace_runs (\<lambda>c. \<not> is_word U c \<and> \<not> is_space U c) (str_lower U x))))"
  by (simp add: normalize_text_def translate_def in_class_space in_class_def Let_def)

lemma ucd_ok_basic: "ucd_ok ucd_basic"
proof -
  have low: "basic_lower (basic_lower d) = basic_lower d" for d
    by (simp add: basic_lower_def)
  have "\<forall>s. \<forall>c\<in>set (map basic_lower s). map basic_lower [c] = [c]"
    using low by auto
  moreover have "\<forall>s. (\<forall>c\<in>set s. map basic_lower [c] = [c]) \<longrightarrow> map basic_lower s = s"
    by (simp add: map_idI)
  moreover have "\<forall>c. basic_is_word c \<longrightarrow> \<not> basic_is_space c"
    by (auto simp: basic_is_word_def basic_is_space_def)
  moreover have "\<forall>d\<in>snd ` set map_l2c. basic_is_word d \<and> map basic_lower [d] = [d]"
    by (simp add: map_l2c_def basic_is_word_def basic_lower_def)
  ultimately show ?thesis
    by (simp add: ucd_ok_def ucd_basic_def basic_is_space_def basic_lower_def)
qed

text \<open>
  Claim C9. For every string \<open>x\<close>, normalizing twice gives the same as normalizing once,
  for every Unicode database with the properties \<open>ucd_ok\<close>.
\<close>

theorem normalize_idempotent:
  assumes ok: "ucd_ok U"
  shows "normalize_text U (normalize_text U x) = normalize_text U x"
proof -
  let ?sp = "is_space U"
  let ?nw = "\<lambda>c. \<not> is_word U c \<and> \<not> is_space U c"
  let ?tr = "translate_char map_l2c"
  let ?good = "\<lambda>c. c = 0x20 \<or> (is_word U c \<and> str_lower U [c] = [c])"
  define l where "l = str_lower U x"
  define u where "u = replace_runs ?nw l"
  define v where "v = replace_runs ?sp u"
  define w where "w = str_strip U v"
  define y where "y = map ?tr w"
  have y: "normalize_text U x = y"
    by (simp add: normalize_text_unfold y_def w_def v_def u_def l_def)
  from ok have stable: "\<And>s c. c \<in> set (str_lower U s) \<Longrightarrow> str_lower U [c] = [c]"
    and fixed: "\<And>s. \<forall>c\<in>set s. str_lower U [c] = [c] \<Longrightarrow> str_lower U s = s"
    and sp20: "is_space U 0x20" and low20: "str_lower U [0x20] = [0x20]"
    and disj: "\<And>c. is_word U c \<Longrightarrow> \<not> is_space U c"
    and cyr: "\<And>d. d \<in> snd ` set map_l2c \<Longrightarrow> is_word U d \<and> str_lower U [d] = [d]"
    unfolding ucd_ok_def by blast+
  have good_w: "?good c" if "c \<in> set w" for c
  proof -
    from that have "c \<in> set v" unfolding w_def by (rule set_str_strip)
    then have "c = 0x20 \<or> (c \<in> set u \<and> \<not> ?sp c)"
      unfolding v_def by (rule set_replace_runs)
    then show ?thesis
    proof
      assume "c = 0x20" then show ?thesis by simp
    next
      assume c: "c \<in> set u \<and> \<not> ?sp c"
      then have "c = 0x20 \<or> (c \<in> set l \<and> \<not> ?nw c)"
        unfolding u_def using set_replace_runs [of c ?nw l] by blast
      with c stable [of c x] show ?thesis
        unfolding l_def by auto
    qed
  qed
  have good_tr: "?good (?tr c)" if "?good c" for c
    using that translate_char_cases [of c] cyr [of "?tr c"] by auto
  have good_y: "?good c" if "c \<in> set y" for c
    using that good_w good_tr unfolding y_def by auto
  have space_y: "c = 0x20" if "c \<in> set y" "?sp c" for c
    using good_y [OF that(1)] that(2) disj by auto
  have step1: "str_lower U y = y"
    using good_y low20 by (intro fixed) auto
  have step2: "replace_runs ?nw y = y"
    using good_y sp20 by (intro replace_runs_id) auto
  have succ_w: "successively (\<lambda>a b. \<not> (?sp a \<and> ?sp b)) w"
    unfolding w_def v_def by (intro successively_str_strip successively_replace_runs)
  have tr_space: "?sp c" if "c \<in> set w" "?sp (?tr c)" for c
  proof -
    from good_w [OF that(1)] show ?thesis
    proof
      assume "c = 0x20" with sp20 show ?thesis by simp
    next
      assume "is_word U c \<and> str_lower U [c] = [c]"
      then have "?good (?tr c)" using good_tr by blast
      then have "?tr c = 0x20 \<or> \<not> ?sp (?tr c)" using disj by auto
      with that(2) have "?tr c = 0x20" by blast
      with translate_char_cases [of c] cyr [of "?tr c"] disj sp20 show ?thesis
        by auto
    qed
  qed
  have succ_y: "successively (\<lambda>a b. \<not> (?sp a \<and> ?sp b)) y"
    unfolding y_def successively_map
    using succ_w by (rule successively_mono) (use tr_space in blast)
  have step3: "replace_runs ?sp y = y"
    using succ_y space_y by (intro replace_runs_fixed) auto
  have ends_w: "w = [] \<or> (\<not> ?sp (hd w) \<and> \<not> ?sp (last w))"
    unfolding w_def by (rule str_strip_ends)
  have step4: "str_strip U y = y"
  proof (rule str_strip_id, cases "w = []")
    case True
    then show "y = [] \<or> (\<not> ?sp (hd y) \<and> \<not> ?sp (last y))" by (simp add: y_def)
  next
    case False
    with ends_w have "\<not> ?sp (hd w)" "\<not> ?sp (last w)" "hd w \<in> set w" "last w \<in> set w"
      by auto
    with tr_space have "\<not> ?sp (?tr (hd w))" "\<not> ?sp (?tr (last w))" by blast+
    with False show "y = [] \<or> (\<not> ?sp (hd y) \<and> \<not> ?sp (last y))"
      by (simp add: y_def hd_map last_map)
  qed
  have step5: "map ?tr y = y"
    by (simp add: y_def translate_char_idem)
  show ?thesis
    unfolding y by (simp add: normalize_text_unfold step1 step2 step3 step4 step5)
qed

theorem normalize_idempotent_witness:
  "ucd_ok ucd_basic \<and>
   normalize_text ucd_basic
     (normalize_text ucd_basic (asc ''Urgent! Transfer money now, you won a prize!'')) =
   normalize_text ucd_basic (asc ''Urgent! Transfer money now, you won a prize!'')"
  using normalize_idempotent [OF ucd_ok_basic, of "asc ''Urgent! Transfer money now, you won a prize!''"]
        ucd_ok_basic
  by simp

text \<open>
  A normal form holds none of the Latin letters that the normalizer folds, so a word with
  such a letter is never found in it. This is the case of the ten Latin link markers.
\<close>

lemma normalized_no_folded_letter:
  "c \<in> set (normalize_text U text) \<Longrightarrow> c \<notin> fst ` set map_l2c"
  unfolding normalize_text_unfold using translate_char_not_key by auto

lemma folded_word_never_found:
  assumes "c \<in> set w" and "c \<in> fst ` set map_l2c"
  shows "\<not> str_contains w (normalize_text U text)"
proof
  assume "str_contains w (normalize_text U text)"
  then have "set w \<subseteq> set (normalize_text U text)"
    unfolding str_contains_sublist by (rule set_mono_sublist)
  with assms(1) have "c \<in> set (normalize_text U text)" by blast
  with assms(2) normalized_no_folded_letter show False by blast
qed

lemma latin_markers_never_found:
  "list_all (\<lambda>m. \<not> str_contains m (normalize_text U text)) (take 10 link_markers)"
proof -
  have "\<forall>m\<in>set (take 10 link_markers). \<exists>c\<in>set m. c \<in> fst ` set map_l2c"
    by (simp add: link_markers_def map_l2c_def asc_def)
  then show ?thesis
    unfolding list_all_iff using folded_word_never_found by blast
qed

subsection \<open>The shape of the reason list\<close>

lemma looks_suspicious_reasons:
  "snd (looks_suspicious U K text) =
     (if keyword_hits U K (normalize_text U text) \<noteq> []
      then [asc ''found keywords: '' @
            str_join (asc '', '') (take 5 (keyword_hits U K (normalize_text U text)))]
      else []) @
     (if list_ex (\<lambda>m. str_contains m (normalize_text U text)) link_markers
      then [asc ''contains link/shortener''] else []) @
     (if rx_search U currency_rx (normalize_text U text)
      then [asc ''mentions money amount + currency''] else []) @
     (if list_ex (\<lambda>a. word_search U a (normalize_text U text)) actions \<and>
         list_ex (\<lambda>r. word_search U r (normalize_text U text)) rewards
      then [asc ''action + reward pattern''] else [])"
  unfolding looks_suspicious_def Let_def by simp

lemma looks_suspicious_flag:
  "fst (looks_suspicious U K text) = (snd (looks_suspicious U K text) \<noteq> [])"
  unfolding looks_suspicious_def Let_def by simp

lemma asc_Cons: "asc (c # cs) = of_char c # asc cs"
  by (simp add: asc_def)

lemma action_reason_iff:
  "asc ''action + reward pattern'' \<in> set (snd (looks_suspicious U K text)) =
     (list_ex (\<lambda>a. word_search U a (normalize_text U text)) actions \<and>
      list_ex (\<lambda>r. word_search U r (normalize_text U text)) rewards)"
  unfolding looks_suspicious_reasons by (simp add: asc_Cons)

lemma money_reason_iff:
  "asc ''mentions money amount + currency'' \<in> set (snd (looks_suspicious U K text)) =
     rx_search U currency_rx (normalize_text U text)"
  unfolding looks_suspicious_reasons by (simp add: asc_Cons)

lemma link_reason_iff:
  "asc ''contains link/shortener'' \<in> set (snd (looks_suspicious U K text)) =
     list_ex (\<lambda>m. str_contains m (normalize_text U text)) link_markers"
  unfolding looks_suspicious_reasons by (simp add: asc_Cons)

subsection \<open>The normal forms of the example messages\<close>

lemma norm_urgent:
  "normalize_text ucd_basic (asc ''Urgent! Transfer money now, you won a prize!'') =
     [0x75, 0x72, 0x67, 0x435, 0x6E, 0x442, 0x20, 0x442, 0x72, 0x430, 0x6E, 0x73, 0x66,
      0x435, 0x72, 0x20, 0x43C, 0x43E, 0x6E, 0x435, 0x443, 0x20, 0x6E, 0x43E, 0x77, 0x20,
      0x443, 0x43E, 0x75, 0x20, 0x77, 0x43E, 0x6E, 0x20, 0x430, 0x20, 0x440, 0x72, 0x69,
      0x7A, 0x435]"
  by (simp add: normalize_eval)

lemma norm_coffee:
  "normalize_text ucd_basic (asc ''Let's meet for coffee tomorrow'') =
     [0x6C, 0x435, 0x442, 0x20, 0x73, 0x20, 0x43C, 0x435, 0x435, 0x442, 0x20, 0x66, 0x43E,
      0x72, 0x20, 0x441, 0x43E, 0x66, 0x66, 0x435, 0x435, 0x20, 0x442, 0x43E, 0x43C, 0x43E,
      0x72, 0x72, 0x43E, 0x77]"
  by (simp add: normalize_eval)

lemma norm_usd:
  "normalize_text ucd_basic (asc ''Please send 1,500.00 USD today'') =
     [0x440, 0x6C, 0x435, 0x430, 0x73, 0x435, 0x20, 0x73, 0x435, 0x6E, 0x64, 0x20, 0x31,
      0x20, 0x35, 0x30, 0x30, 0x20, 0x30, 0x30, 0x20, 0x75, 0x73, 0x64, 0x20, 0x442, 0x43E,
      0x64, 0x430, 0x443]"
  by (simp add: normalize_eval)

lemma norm_room:
  "normalize_text ucd_basic (asc ''room 1500'') =
     [0x72, 0x43E, 0x43E, 0x43C, 0x20, 0x31, 0x35, 0x30, 0x30]"
  by (simp add: normalize_eval)

lemma norm_http:
  "normalize_text ucd_basic (asc ''http://example.com'') =
     [0x43D, 0x442, 0x442, 0x440, 0x20, 0x435, 0x445, 0x430, 0x43C, 0x440, 0x6C, 0x435, 0x20,
      0x441, 0x43E, 0x43C]"
  by (simp add: normalize_eval)

lemmas word_lists =
  fallback_keywords_def link_markers_def actions_def rewards_def currency_words_def asc_def

subsection \<open>The detectors on the example messages\<close>

text \<open>
  Claim C1, as stated, fails: on \<open>Urgent! Transfer money now, you won a prize!\<close> with the
  built-in keyword list the result is not suspicious and carries no reason. The
  normalizer folds the Latin letters a, e, o, p, c, x, y, k, m, h, b, t to Cyrillic, and
  the word lists are matched unfolded.
\<close>

theorem urgent_counterexample:
  "looks_suspicious ucd_basic fallback_keywords
     (asc ''Urgent! Transfer money now, you won a prize!'') = (False, [])"
proof -
  have "snd (looks_suspicious ucd_basic fallback_keywords
               (asc ''Urgent! Transfer money now, you won a prize!'')) = []"
    unfolding looks_suspicious_reasons norm_urgent
    by (simp add: keyword_hits_def word_lists no_word_search no_currency)
  then show ?thesis
    using looks_suspicious_flag [of ucd_basic fallback_keywords]
    by (simp add: prod_eq_iff)
qed

text \<open>
  Claim C1, amended. On \<open>Urgent! Transfer money now, you won a prize!\<close>, whatever the
  keyword list, the reasons do not contain the action and reward reason: no word of the
  built-in action list occurs in the message.
\<close>

theorem urgent_no_action_reason:
  "asc ''action + reward pattern'' \<notin>
     set (snd (looks_suspicious ucd_basic K (asc ''Urgent! Transfer money now, you won a prize!'')))"
  unfolding action_reason_iff norm_urgent
  by (simp add: word_lists no_word_search)

text \<open>
  Claim C2 on the message \<open>http://example.com\<close>: the message contains the marker
  \<open>http://\<close>, and the reasons of \<open>looks_suspicious\<close> do not contain the link reason,
  whatever the keyword list.
\<close>

theorem http_marker_missed:
  "str_contains (asc ''http://'') (asc ''http://example.com'') \<and>
   asc ''contains link/shortener'' \<notin>
     set (snd (looks_suspicious ucd_basic K (asc ''http://example.com'')))"
proof -
  have "str_contains (asc ''http://'') (asc ''http://example.com'')"
    by (simp add: asc_def)
  moreover have "asc ''contains link/shortener'' \<notin>
      set (snd (looks_suspicious ucd_basic K (asc ''http://example.com'')))"
    unfolding link_reason_iff norm_http
    by (simp add: word_lists)
  ultimately show ?thesis by simp
qed

lemma coffee_clean:
  "looks_suspicious ucd_basic fallback_keywords (asc ''Let's meet for coffee tomorrow'') = (False, [])"
proof -
  have "snd (looks_suspicious ucd_basic fallback_keywords
               (asc ''Let's meet for coffee tomorrow'')) = []"
    unfolding looks_suspicious_reasons norm_coffee
    by (simp add: keyword_hits_def word_lists no_word_search no_currency)
  then show ?thesis
    using looks_suspicious_flag [of ucd_basic fallback_keywords]
    by (simp add: prod_eq_iff)
qed

text \<open>
  Claim C7. For every message and keyword list the flag is true exactly when the reason
  list is not empty, and the reason list is a subsequence of the four reasons in detector
  order: keywords, link, currency, action and reward. With the built-in keyword list,
  \<open>Let's meet for coffee tomorrow\<close> is not suspicious and has no reason.
\<close>

theorem reasons_order:
  "fst (looks_suspicious U K text) = (snd (looks_suspicious U K text) \<noteq> []) \<and>
   subseq (snd (looks_suspicious U K text))
     [asc ''found keywords: '' @
        str_join (asc '', '') (take 5 (keyword_hits U K (normalize_text U text))),
      asc ''contains link/shortener'',
      asc ''mentions money amount + currency'',
      asc ''action + reward pattern''] \<and>
   looks_suspicious ucd_basic fallback_keywords (asc ''Let's meet for coffee tomorrow'') = (False, [])"
proof -
  have "subseq (snd (looks_suspicious U K text))
     [asc ''found keywords: '' @
        str_join (asc '', '') (take 5 (keyword_hits U K (normalize_text U text))),
      asc ''contains link/shortener'',
      asc ''mentions money amount + currency'',
      asc ''action + reward pattern'']"
    unfolding looks_suspicious_reasons by (simp add: asc_Cons)
  then show ?thesis
    using looks_suspicious_flag coffee_clean by simp
qed

lemma usd_match_at_18:
  "rx_ends ucd_basic
     [0x440, 0x6C, 0x435, 0x430, 0x73, 0x435, 0x20, 0x73, 0x435, 0x6E, 0x64, 0x20, 0x31,
      0x20, 0x35, 0x30, 0x30, 0x20, 0x30, 0x30, 0x20, 0x75, 0x73, 0x64, 0x20, 0x442, 0x43E,
      0x64, 0x430, 0x443] currency_rx 18 = [24]"
  by (simp add: currency_rx_def currency_token_def digit_def Plus_def class_end_def in_class_def
        word_at_def asc_def ucd_basic_simps)

text \<open>
  Claim C10. The currency pattern is found in the normal form of
  \<open>Please send 1,500.00 USD today\<close>, so the money reason is among the reasons; it is not
  found in the normal form of \<open>room 1500\<close>, whose reasons do not contain the money reason.
\<close>

theorem currency_examples:
  "rx_search ucd_basic currency_rx (normalize_text ucd_basic (asc ''Please send 1,500.00 USD today'')) \<and>
   asc ''mentions money amount + currency'' \<in>
     set (snd (looks_suspicious ucd_basic K (asc ''Please send 1,500.00 USD today''))) \<and>
   \<not> rx_search ucd_basic currency_rx (normalize_text ucd_basic (asc ''room 1500'')) \<and>
   asc ''mentions money amount + currency'' \<notin>
     set (snd (looks_suspicious ucd_basic K (asc ''room 1500'')))"
proof -
  have pos: "rx_search ucd_basic currency_rx
               (normalize_text ucd_basic (asc ''Please send 1,500.00 USD today''))"
    unfolding norm_usd by (rule rx_searchI [where i = 18]) (simp_all add: usd_match_at_18)
  have neg: "\<not> rx_search ucd_basic currency_rx (normalize_text ucd_basic (asc ''room 1500''))"
    unfolding norm_room by (simp add: no_currency word_lists)
  show ?thesis
    using pos neg by (simp add: money_reason_iff)
qed

section \<open>Properties of keyword loading\<close>

lemma lower_idem: "ucd_ok U \<Longrightarrow> str_lower U (str_lower U s) = str_lower U s"
  unfolding ucd_ok_def by blast

lemma load_keywords_loaded:
  assumes "load_keywords U file \<noteq> fallback_keywords"
  shows "sorted (load_keywords U file) \<and> distinct (load_keywords U file)"
  using assms by (auto simp: load_keywords_def split: option.splits json.splits)

lemma load_keywords_lowercase:
  assumes "ucd_ok U" and "load_keywords U file \<noteq> fallback_keywords"
    and "k \<in> set (load_keywords U file)"
  shows "str_lower U k = k"
  using assms(2,3) lower_idem [OF assms(1)]
  by (auto simp: load_keywords_def split: option.splits json.splits)

lemma fallback_distinct: "distinct fallback_keywords"
  by (simp add: fallback_keywords_def asc_def)

lemma fallback_lowercase: "list_all (\<lambda>k. str_lower ucd_basic k = k) fallback_keywords"
  by (simp add: fallback_keywords_def asc_def ucd_basic_def basic_lower_def)

text \<open>
  Claim C8 on the fallback branch: when the keyword file cannot be read, the list that
  \<open>load_keywords\<close> returns is not sorted (\<open>urgent\<close> stands before \<open>money\<close>). The entries of
  the list are lower-case and distinct on both branches, and the list read from a file
  is sorted.
\<close>

theorem fallback_not_sorted: "\<not> sorted (load_keywords U None)"
proof
  assume "sorted (load_keywords U None)"
  then have "sorted fallback_keywords"
    by (simp add: load_keywords_def)
  then have "asc ''urgent'' \<le> asc ''money''"
    by (simp add: fallback_keywords_def)
  then show False
    by (simp add: asc_def)
qed

section \<open>Properties of the explanation arbiter\<close>


lemma timeout_not_quota: "\<not> is_quota_error ucd_basic (asc ''connection timed out'')"
  by (simp add: is_quota_error_def asc_def ucd_basic_simps)

lemma retry_group_429: "retry_group ucd_basic (asc ''429 Too Many Requests'') = None"
  by (simp add: retry_group_def retry_prefix_def asc_def ascii_fold_def
        upt_rec[of _ "Suc _"] upt_rec[of _ "numeral _"])

lemma quota_429: "is_quota_error ucd_basic (asc ''429 Too Many Requests'')"
  by (simp add: is_quota_error_def asc_def)

lemma retry_group_delay:
  "retry_group ucd_basic (asc ''429 Retry_Delay: 30s'') = Some (asc ''30'')"
  by (simp add: retry_group_def retry_prefix_def asc_def ascii_fold_def digit_def Plus_def
        class_end_def in_class_def ucd_basic_simps
        upt_rec[of _ "Suc _"] upt_rec[of _ "numeral _"])

lemma float_30: "float_of_digits ucd_basic (asc ''30'') = 30"
  by (simp add: float_of_digits_def asc_def ucd_basic_def)

lemma quota_delay: "is_quota_error ucd_basic (asc ''429 Retry_Delay: 30s'')"
  by (simp add: is_quota_error_def asc_def)

lemma quota_capital: "is_quota_error ucd_basic (asc ''Quota exceeded'')"
  by (simp add: is_quota_error_def asc_def ucd_basic_simps)

lemma retry_group_capital: "retry_group ucd_basic (asc ''Quota exceeded'') = None"
  by (simp add: retry_group_def retry_prefix_def asc_def ascii_fold_def
        upt_rec[of _ "Suc _"] upt_rec[of _ "numeral _"])

subsection \<open>The example environments\<close>

lemma utf8_stdout_sent: "utf8_stdout (asc ''[Gemini] sent '' @ [0x2026]) = None"
  by (simp add: utf8_stdout_def asc_def is_surrogate_def)

lemma remote_call_throws:
  "remote_call U (env_utf8 g f l) (always_throws e) request = (Thrown e, [request])"
  by (simp add: remote_call_def env_utf8_def always_throws_def utf8_stdout_sent)




subsection \<open>The state after a call\<close>

lemma state_quota:
  assumes "\<not> now_gate E < ai_cooldown_until st"
    and "fst (remote_call U E g (request_text text lang)) = Thrown (Exc msg)"
    and "is_quota_error U msg"
  shows "state (ai_explain_safety U E (Some g) st text lang) = quota_state U E st msg"
  using assms
  by (cases "remote_call U E g (request_text text lang)")
     (simp add: ai_explain_safety_def Let_def split: option.split)

lemma state_frame:
  assumes "\<forall>msg. fst (remote_call U E g (request_text text lang)) = Thrown (Exc msg)
             \<longrightarrow> \<not> is_quota_error U msg"
  shows "state (ai_explain_safety U E (Some g) st text lang) = st"
  using assms
  by (cases "remote_call U E g (request_text text lang)")
     (simp add: ai_explain_safety_def Let_def split: option.split call_result.split exn.split)

lemma backoff_in_range:
  assumes "60 \<le> ai_backoff_sec st" and "ai_backoff_sec st \<le> 3600"
  shows "60 \<le> ai_backoff_sec (state (ai_explain_safety U E gemini_model st text lang)) \<and>
         ai_backoff_sec (state (ai_explain_safety U E gemini_model st text lang)) \<le> 3600"
proof (cases gemini_model)
  case None
  with assms show ?thesis by (simp add: ai_explain_safety_def)
next
  case (Some g)
  with assms show ?thesis
    by (cases "remote_call U E g (request_text text lang)")
       (simp add: ai_explain_safety_def quota_state_def ai_backoff_max_def Let_def
             split: option.split call_result.split exn.split)
qed



subsection \<open>Quota failures\<close>

text \<open>
  Claim C3. When a call is not gated and the remote call fails with a quota error, the
  call sets \<open>cooldown_until\<close> to the sum, in doubles, of the clock and the cooldown window,
  which is the smaller of 3600 and the delay found in the error text (the current backoff
  when there is none), and doubles \<open>backoff_seconds\<close> up to 3600. When two such failures
  follow each other and neither error text carries a delay, the second cooldown window
  is the double of the first, cut at 3600. The backoff is never negative
  (\<open>backoff_in_range\<close>).
\<close>

theorem quota_failure_backoff:
  assumes nonneg: "0 \<le> ai_backoff_sec st"
    and gate1: "\<not> now_gate E < ai_cooldown_until st"
    and fail1: "fst (remote_call U E g (request_text text lang)) = Thrown (Exc msg)"
    and quota1: "is_quota_error U msg"
    and st1: "st1 = state (ai_explain_safety U E (Some g) st text lang)"
    and gate2: "\<not> now_gate E2 < ai_cooldown_until st1"
    and fail2: "fst (remote_call U E2 g2 (request_text text2 lang2)) = Thrown (Exc msg2)"
    and quota2: "is_quota_error U msg2"
    and st2: "st2 = state (ai_explain_safety U E2 (Some g2) st1 text2 lang2)"
  shows "ai_cooldown_until st1 = fadd E (now_fail E) (cooldown_window U st msg) \<and>
         cooldown_window U st msg =
           min (case retry_group U msg of Some ds \<Rightarrow> float_of_digits U ds
                                        | None \<Rightarrow> ai_backoff_sec st) 3600 \<and>
         ai_backoff_sec st1 = min (ai_backoff_sec st * 2) 3600 \<and>
         ai_cooldown_until st2 = fadd E2 (now_fail E2) (cooldown_window U st1 msg2) \<and>
         (retry_group U msg = None \<and> retry_group U msg2 = None \<longrightarrow>
            cooldown_window U st1 msg2 = min (2 * cooldown_window U st msg) 3600)"
proof -
  have s1: "st1 = quota_state U E st msg"
    unfolding st1 using gate1 fail1 quota1 by (rule state_quota)
  have s2: "st2 = quota_state U E2 st1 msg2"
    unfolding st2 using gate2 fail2 quota2 by (rule state_quota)
  have b1: "ai_backoff_sec st1 = min (ai_backoff_sec st * 2) 3600"
    by (simp add: s1 quota_state_def ai_backoff_max_def)
  have win: "cooldown_window U st1 msg2 = min (2 * cooldown_window U st msg) 3600"
    if "retry_group U msg = None" "retry_group U msg2 = None"
    using that by (simp add: cooldown_window_def b1 ai_backoff_max_def Let_def)
  show ?thesis
    using win b1
    by (simp add: s1 s2 quota_state_def cooldown_window_def ai_backoff_max_def Let_def)
qed

theorem quota_failure_backoff_witness:
  "0 \<le> ai_backoff_sec ai_initial \<and>
   \<not> now_gate (env_utf8 100 101 102) < ai_cooldown_until ai_initial \<and>
   fst (remote_call ucd_basic (env_utf8 100 101 102)
          (always_throws (Exc (asc ''429 Too Many Requests'')))
          (request_text (asc ''send money'') (asc ''en''))) = Thrown (Exc (asc ''429 Too Many Requests'')) \<and>
   is_quota_error ucd_basic (asc ''429 Too Many Requests'') \<and>
   retry_group ucd_basic (asc ''429 Too Many Requests'') = None \<and>
   \<not> now_gate (env_utf8 200 201 202) < ai_cooldown_until
        (state (ai_explain_safety ucd_basic (env_utf8 100 101 102)
                  (Some (always_throws (Exc (asc ''429 Too Many Requests''))))
                  ai_initial (asc ''send money'') (asc ''en''))) \<and>
   ai_cooldown_until
     (state (ai_explain_safety ucd_basic (env_utf8 100 101 102)
               (Some (always_throws (Exc (asc ''429 Too Many Requests''))))
               ai_initial (asc ''send money'') (asc ''en''))) = 161 \<and>
   ai_backoff_sec
     (state (ai_explain_safety ucd_basic (env_utf8 100 101 102)
               (Some (always_throws (Exc (asc ''429 Too Many Requests''))))
               ai_initial (asc ''send money'') (asc ''en''))) = 120 \<and>
   cooldown_window ucd_basic ai_initial (asc ''429 Too Many Requests'') = 60 \<and>
   cooldown_window ucd_basic
     (state (ai_explain_safety ucd_basic (env_utf8 100 101 102)
               (Some (always_throws (Exc (asc ''429 Too Many Requests''))))
               ai_initial (asc ''send money'') (asc ''en'')))
     (asc ''429 Too Many Requests'') = 120 \<and>
   ai_cooldown_until
     (state (ai_explain_safety ucd_basic (env_utf8 200 201 202)
               (Some (always_throws (Exc (asc ''429 Too Many Requests''))))
               (state (ai_explain_safety ucd_basic (env_utf8 100 101 102)
                         (Some (always_throws (Exc (asc ''429 Too Many Requests''))))
                         ai_initial (asc ''send money'') (asc ''en'')))
               (asc ''send money'') (asc ''en''))) = 321 \<and>
   is_quota_error ucd_basic (asc ''429 Retry_Delay: 30s'') \<and>
   retry_group ucd_basic (asc ''429 Retry_Delay: 30s'') = Some (asc ''30'') \<and>
   cooldown_window ucd_basic ai_initial (asc ''429 Retry_Delay: 30s'') = 30 \<and>
   ai_cooldown_until
     (state (ai_explain_safety ucd_basic (env_utf8 100 101 102)
               (Some (always_throws (Exc (asc ''429 Retry_Delay: 30s''))))
               ai_initial (asc ''send money'') (asc ''en''))) = 131"
proof -
  define E1 where "E1 = env_utf8 100 101 102"
  define E2 where "E2 = env_utf8 200 201 202"
  define g where "g = always_throws (Exc (asc ''429 Too Many Requests''))"
  define h where "h = always_throws (Exc (asc ''429 Retry_Delay: 30s''))"
  define st1 where
    "st1 = state (ai_explain_safety ucd_basic E1 (Some g) ai_initial (asc ''send money'') (asc ''en''))"
  define st2 where
    "st2 = state (ai_explain_safety ucd_basic E2 (Some g) st1 (asc ''send money'') (asc ''en''))"
  define st3 where
    "st3 = state (ai_explain_safety ucd_basic E1 (Some h) ai_initial (asc ''send money'') (asc ''en''))"
  define st4 where
    "st4 = state (ai_explain_safety ucd_basic E2 (Some g) st3 (asc ''send money'') (asc ''en''))"
  have nonneg: "0 \<le> ai_backoff_sec ai_initial"
    by (simp add: ai_initial_def)
  have gate1: "\<not> now_gate E1 < ai_cooldown_until ai_initial"
    by (simp add: ai_initial_def E1_def env_utf8_def)
  have fail1: "fst (remote_call ucd_basic E1 g (request_text (asc ''send money'') (asc ''en'')))
                 = Thrown (Exc (asc ''429 Too Many Requests''))"
    by (simp add: E1_def g_def remote_call_throws)
  have fail2: "fst (remote_call ucd_basic E2 g (request_text (asc ''send money'') (asc ''en'')))
                 = Thrown (Exc (asc ''429 Too Many Requests''))"
    by (simp add: E2_def g_def remote_call_throws)
  have fail3: "fst (remote_call ucd_basic E1 h (request_text (asc ''send money'') (asc ''en'')))
                 = Thrown (Exc (asc ''429 Retry_Delay: 30s''))"
    by (simp add: E1_def h_def remote_call_throws)
  have w1: "cooldown_window ucd_basic ai_initial (asc ''429 Too Many Requests'') = 60"
    by (simp add: cooldown_window_def retry_group_429 ai_initial_def ai_backoff_max_def)
  have w3: "cooldown_window ucd_basic ai_initial (asc ''429 Retry_Delay: 30s'') = 30"
    by (simp add: cooldown_window_def retry_group_delay float_30 ai_backoff_max_def)
  have first: "ai_cooldown_until st1 = 161"
    unfolding st1_def state_quota [OF gate1 fail1 quota_429]
    by (simp add: quota_state_def w1 E1_def env_utf8_def)
  have third: "ai_cooldown_until st3 = 131"
    unfolding st3_def state_quota [OF gate1 fail3 quota_delay]
    by (simp add: quota_state_def w3 E1_def env_utf8_def)
  have gate2: "\<not> now_gate E2 < ai_cooldown_until st1"
    by (simp add: first E2_def env_utf8_def)
  have gate4: "\<not> now_gate E2 < ai_cooldown_until st3"
    by (simp add: third E2_def env_utf8_def)
  note T = quota_failure_backoff [OF nonneg gate1 fail1 quota_429 st1_def gate2 fail2 quota_429 st2_def]
  note T' = quota_failure_backoff [OF nonneg gate1 fail3 quota_delay st3_def gate4 fail2 quota_429 st4_def]
  have c: "ai_backoff_sec st1 = 120"
          "cooldown_window ucd_basic st1 (asc ''429 Too Many Requests'') = 120"
          "ai_cooldown_until st2 = 321"
    using T retry_group_429 by (simp_all add: w1 ai_initial_def E2_def env_utf8_def)
  have d: "ai_cooldown_until st3 = 131"
    using T' by (simp add: w3 E1_def env_utf8_def)
  show ?thesis
    using nonneg gate1 fail1 quota_429 retry_group_429 gate2 first c w1 quota_delay
      retry_group_delay w3 d
    unfolding st3_def st2_def st1_def g_def h_def E1_def E2_def by blast
qed

subsection \<open>Totality\<close>




subsection \<open>Gating\<close>

text \<open>
  Claim C5. When the model handle is unset or the clock is before \<open>cooldown_until\<close>, the
  call returns the local fallback tip of the language, leaves the state as it was and
  sends nothing to the remote generator.
\<close>

theorem ai_explain_safety_gated:
  "gemini_model = None \<or> now_gate E < ai_cooldown_until st \<Longrightarrow>
   ai_explain_safety U E gemini_model st text lang =
     \<lparr> result = Return (Some (local_fallback_tip lang)), state = st, sent = [] \<rparr>"
  by (auto simp: ai_explain_safety_def split: option.split)

theorem ai_explain_safety_gated_witness:
  "((None :: generator option) = None \<or> now_gate (env_utf8 5 6 7) < ai_cooldown_until ai_initial) \<and>
   ai_explain_safety ucd_basic (env_utf8 5 6 7) None ai_initial (asc ''send money'') (asc ''en'') =
     \<lparr> result = Return (Some (local_fallback_tip (asc ''en''))), state = ai_initial, sent = [] \<rparr> \<and>
   (Some (always_responds None) = (None :: generator option) \<or>
      now_gate (env_utf8 5 6 7) < ai_cooldown_until \<lparr> ai_cooldown_until = 30, ai_backoff_sec = 120 \<rparr>) \<and>
   ai_explain_safety ucd_basic (env_utf8 5 6 7) (Some (always_responds None))
       \<lparr> ai_cooldown_until = 30, ai_backoff_sec = 120 \<rparr> (asc ''send money'') (asc ''ru'') =
     \<lparr> result = Return (Some (local_fallback_tip (asc ''ru''))),
       state = \<lparr> ai_cooldown_until = 30, ai_backoff_sec = 120 \<rparr>, sent = [] \<rparr>"
  using ai_explain_safety_gated [of None "env_utf8 5 6 7" ai_initial ucd_basic "asc ''send money''" "asc ''en''"]
        ai_explain_safety_gated [of "Some (always_responds None)" "env_utf8 5 6 7"
          "\<lparr> ai_cooldown_until = 30, ai_backoff_sec = 120 \<rparr>" ucd_basic "asc ''send money''" "asc ''ru''"]
  by (simp add: env_utf8_def)

subsection \<open>Frame\<close>

text \<open>
  Claim C6, as stated, fails: the error text \<open>Quota exceeded\<close> contains neither \<open>429\<close>
  nor \<open>quota\<close>, and the call changes both fields of the state, from (0, 60) to (66, 120).
  The program looks for \<open>quota\<close> in the lower-cased text.
\<close>

theorem quota_capital_counterexample:
  "\<not> str_contains (asc ''429'') (asc ''Quota exceeded'') \<and>
   \<not> str_contains (asc ''quota'') (asc ''Quota exceeded'') \<and>
   fst (remote_call ucd_basic (env_utf8 5 6 7) (always_throws (Exc (asc ''Quota exceeded'')))
          (request_text (asc ''send money'') (asc ''en''))) = Thrown (Exc (asc ''Quota exceeded'')) \<and>
   ai_initial = \<lparr> ai_cooldown_until = 0, ai_backoff_sec = 60 \<rparr> \<and>
   state (ai_explain_safety ucd_basic (env_utf8 5 6 7)
            (Some (always_throws (Exc (asc ''Quota exceeded'')))) ai_initial
            (asc ''send money'') (asc ''en'')) = \<lparr> ai_cooldown_until = 66, ai_backoff_sec = 120 \<rparr>"
proof -
  let ?E = "env_utf8 5 6 7"
  have gate: "\<not> now_gate ?E < ai_cooldown_until ai_initial"
    by (simp add: ai_initial_def env_utf8_def)
  have call: "fst (remote_call ucd_basic ?E (always_throws (Exc (asc ''Quota exceeded'')))
                (request_text (asc ''send money'') (asc ''en''))) = Thrown (Exc (asc ''Quota exceeded''))"
    by (simp add: remote_call_throws)
  have "state (ai_explain_safety ucd_basic ?E
            (Some (always_throws (Exc (asc ''Quota exceeded'')))) ai_initial
            (asc ''send money'') (asc ''en'')) = \<lparr> ai_cooldown_until = 66, ai_backoff_sec = 120 \<rparr>"
    unfolding state_quota [OF gate call quota_capital]
    by (simp add: quota_state_def cooldown_window_def retry_group_capital ai_initial_def
          ai_backoff_max_def env_utf8_def)
  moreover have "\<not> str_contains (asc ''429'') (asc ''Quota exceeded'')"
    and "\<not> str_contains (asc ''quota'') (asc ''Quota exceeded'')"
    by (simp_all add: asc_def)
  ultimately show ?thesis
    using call by (simp add: ai_initial_def)
qed

text \<open>
  Claim C6, amended. When the remote call succeeds, or fails with an error whose text
  contains neither \<open>429\<close> nor, once lower-cased, \<open>quota\<close>, the call leaves \<open>cooldown_until\<close>
  and \<open>backoff_seconds\<close> unchanged.
\<close>

theorem ai_state_frame:
  assumes "\<forall>msg. fst (remote_call U E generate_content (request_text text lang)) = Thrown (Exc msg)
             \<longrightarrow> \<not> is_quota_error U msg"
  shows "ai_cooldown_until (state (ai_explain_safety U E (Some generate_content) st text lang))
           = ai_cooldown_until st \<and>
         ai_backoff_sec (state (ai_explain_safety U E (Some generate_content) st text lang))
           = ai_backoff_sec st"
  using state_frame [OF assms] by simp

theorem ai_state_frame_witness:
  "\<not> is_quota_error ucd_basic (asc ''connection timed out'') \<and>
   fst (remote_call ucd_basic (env_utf8 5 6 7) (always_throws (Exc (asc ''connection timed out'')))
          (request_text (asc ''send money'') (asc ''en''))) = Thrown (Exc (asc ''connection timed out'')) \<and>
   ai_cooldown_until (state (ai_explain_safety ucd_basic (env_utf8 5 6 7)
       (Some (always_throws (Exc (asc ''connection timed out'')))) ai_initial
       (asc ''send money'') (asc ''en''))) = ai_cooldown_until ai_initial \<and>
   ai_backoff_sec (state (ai_explain_safety ucd_basic (env_utf8 5 6 7)
       (Some (always_throws (Exc (asc ''connection timed out'')))) ai_initial
       (asc ''send money'') (asc ''en''))) = ai_backoff_sec ai_initial"
  using ai_state_frame [of ucd_basic "env_utf8 5 6 7"
          "always_throws (Exc (asc ''connection timed out''))" "asc ''send money''" "asc ''en''"
          ai_initial]
        timeout_not_quota
  by (simp add: remote_call_throws)

end
